theory Spec2Isabelle
  imports Complex_Main "HOL-Library.Sublist" "HOL-Library.AList"
begin

section \<open>Python text primitives\<close>

text \<open>
  Text is modelled as \<^typ>\<open>string\<close>, one \<^typ>\<open>char\<close> per code point; the
  development is about ASCII text, where Python's notions of whitespace, word character and
  letter case are the ones written out here.
\<close>

abbreviation NL :: char where
  "NL \<equiv> CHR 0x0A"

text \<open>\<^verbatim>\<open>str.isspace\<close> on one ASCII character, which is also what \<^verbatim>\<open>\s\<close>
  matches and what \<^verbatim>\<open>str.strip\<close> removes: tab, line feed, vertical tab, form feed,
  carriage return, the four separators 0x1C..0x1F, and the space.\<close>

definition is_space :: "char \<Rightarrow> bool" where
  "is_space c = (let n = (of_char c :: nat) in (9 \<le> n \<and> n \<le> 13) \<or> (28 \<le> n \<and> n \<le> 32))"

text \<open>The regular-expression class \<^verbatim>\<open>\w\<close> on ASCII: letters, digits, underscore.\<close>

definition is_word :: "char \<Rightarrow> bool" where
  "is_word c = (let n = (of_char c :: nat) in
     (48 \<le> n \<and> n \<le> 57) \<or> (65 \<le> n \<and> n \<le> 90) \<or> n = 95 \<or> (97 \<le> n \<and> n \<le> 122))"

text \<open>\<^verbatim>\<open>str.lower\<close> on one ASCII character: an upper-case letter (0x41..0x5A) gets
  bit 5 set, which adds 32; every other character is unchanged.\<close>

definition lower_char :: "char \<Rightarrow> char" where
  "lower_char c = (let n = (of_char c :: nat) in
     if 65 \<le> n \<and> n \<le> 90
     then (case c of Char b0 b1 b2 b3 b4 b5 b6 b7 \<Rightarrow> Char b0 b1 b2 b3 b4 True b6 b7)
     else c)"

definition py_lower :: "string \<Rightarrow> string" where
  "py_lower s = map lower_char s"

definition py_lstrip :: "string \<Rightarrow> string" where
  "py_lstrip s = dropWhile is_space s"

definition py_rstrip :: "string \<Rightarrow> string" where
  "py_rstrip s = rev (dropWhile is_space (rev s))"

definition py_strip :: "string \<Rightarrow> string" where
  "py_strip s = py_rstrip (py_lstrip s)"

definition startswith :: "string \<Rightarrow> string \<Rightarrow> bool" where
  "startswith s p = prefix p s"

text \<open>The substring test \<^verbatim>\<open>needle in hay\<close> on two strings.\<close>

fun str_contains :: "string \<Rightarrow> string \<Rightarrow> bool" where
  "str_contains [] needle = (needle = [])"
| "str_contains (c # cs) needle = (prefix needle (c # cs) \<or> str_contains cs needle)"

text \<open>\<^verbatim>\<open>s.split(sep)\<close> for a non-empty separator: the occurrences of \<open>sep\<close> are found
  from the left and do not overlap; the result always has at least one piece. The second
  argument is the piece being collected, reversed.\<close>

function split_from :: "string \<Rightarrow> string \<Rightarrow> string \<Rightarrow> string list" where
  "split_from sep acc s =
     (if sep \<noteq> [] \<and> prefix sep s then rev acc # split_from sep [] (drop (length sep) s)
      else case s of [] \<Rightarrow> [rev acc] | c # cs \<Rightarrow> split_from sep (c # acc) cs)"
  by pat_completeness auto
termination
  by (relation "measure (\<lambda>(sep, acc, s). length s)") (auto simp: prefix_def)

declare split_from.simps [simp del]

definition py_split :: "string \<Rightarrow> string \<Rightarrow> string list" where
  "py_split s sep = split_from sep [] s"

text \<open>\<^verbatim>\<open>s.replace(old, '')\<close> for a non-empty \<open>old\<close>: every occurrence, found from
  the left without overlap, is deleted.\<close>

function py_remove :: "string \<Rightarrow> string \<Rightarrow> string" where
  "py_remove s old =
     (if old \<noteq> [] \<and> prefix old s then py_remove (drop (length old) s) old
      else case s of [] \<Rightarrow> [] | c # cs \<Rightarrow> c # py_remove cs old)"
  by pat_completeness auto
termination
  by (relation "measure (\<lambda>(s, old). length s)") (auto simp: prefix_def)

declare py_remove.simps [simp del]

text \<open>\<^verbatim>\<open>sep.join(xs)\<close>.\<close>

fun py_join :: "string \<Rightarrow> string list \<Rightarrow> string" where
  "py_join sep [] = []"
| "py_join sep [x] = x"
| "py_join sep (x # y # ys) = x @ sep @ py_join sep (y # ys)"

text \<open>\<^verbatim>\<open>f.readlines()\<close> on the text of a file: each line keeps its line feed; text
  after the last line feed is a final line, and there is no empty final line.\<close>

fun readlines_from :: "string \<Rightarrow> string \<Rightarrow> string list" where
  "readlines_from acc [] = (if acc = [] then [] else [rev acc])"
| "readlines_from acc (c # cs) =
     (if c = NL then rev (c # acc) # readlines_from [] cs else readlines_from (c # acc) cs)"

definition readlines :: "string \<Rightarrow> string list" where
  "readlines content = readlines_from [] content"

section \<open>Records as dictionaries\<close>

text \<open>
  A Record is a Python \<^verbatim>\<open>dict\<close> with string keys, written to and read back from JSON.
  The values the converter writes are strings and lists of strings; the fuzzy search adds
  a number under the key \<^verbatim>\<open>similarity\<close>. A dictionary keeps its keys in insertion
  order, so it is an association list with distinct keys.
\<close>

datatype jvalue = JStr string | JList "string list" | JNum rat

type_synonym entry = "(string \<times> jvalue) list"

datatype error = KeyError string | AttributeError | TypeError | OverflowError | RecursionError

text \<open>\<^verbatim>\<open>d[k] = v\<close>: an existing key keeps its place, a new key goes last.\<close>

definition set_item :: "entry \<Rightarrow> string \<Rightarrow> jvalue \<Rightarrow> entry" where
  "set_item d k v = AList.update k v d"

text \<open>\<^verbatim>\<open>d[k]\<close> raises \<^verbatim>\<open>KeyError\<close> on a missing key; \<^verbatim>\<open>d.get(k, default)\<close> does not.\<close>

definition get_item :: "entry \<Rightarrow> string \<Rightarrow> error + jvalue" where
  "get_item d k = (case map_of d k of None \<Rightarrow> Inl (KeyError k) | Some v \<Rightarrow> Inr v)"

definition dict_get :: "entry \<Rightarrow> string \<Rightarrow> jvalue \<Rightarrow> jvalue" where
  "dict_get d k dflt = (case map_of d k of None \<Rightarrow> dflt | Some v \<Rightarrow> v)"

text \<open>Truth value of a value in a condition: empty strings and lists and zero are false.\<close>

fun truthy :: "jvalue \<Rightarrow> bool" where
  "truthy (JStr s) = (s \<noteq> [])"
| "truthy (JList xs) = (xs \<noteq> [])"
| "truthy (JNum r) = (r \<noteq> 0)"

section \<open>The format parsers (scripts/convert\_data.py)\<close>

text \<open>Each parser is modelled on the text its \<^verbatim>\<open>f.read()\<close> or
  \<^verbatim>\<open>f.readlines()\<close> returns.\<close>

subsection \<open>parse\_data\_type\_file\<close>

definition DASH_SEP :: string where
  "DASH_SEP = ''-----------------------'' @ [NL]"

text \<open>
  \<^verbatim>\<open>re.match(r'(\w+)\(\s*(.*?)\s*\)', first_line)\<close>, giving groups 1 and 2. The match
  starts at the first character: a non-empty run of word characters, taken whole since
  the next character must be the opening parenthesis; then the text up to the first
  closing parenthesis, which group 2 holds without the whitespace at its two ends (the
  first \<^verbatim>\<open>\s*\<close> is greedy, \<^verbatim>\<open>.*?\<close> is lazy and stops where only whitespace
  is left before the parenthesis). The dot matches no line feed.
\<close>

definition match_declaration :: "string \<Rightarrow> (string \<times> string) option" where
  "match_declaration s =
     (let w = takeWhile is_word s; r = dropWhile is_word s in
      if w = [] then None
      else case r of
             [] \<Rightarrow> None
           | c # rest \<Rightarrow>
               (let inner = py_strip (takeWhile (\<lambda>x. x \<noteq> CHR 0x29) rest) in
                if c = CHR 0x28 \<and> CHR 0x29 \<in> set rest \<and> NL \<notin> set inner
                then Some (w, inner) else None))"

definition data_type_entry :: entry where
  "data_type_entry =
     [(''name'', JStr ''''), (''description'', JStr ''''), (''definition_type'', JStr ''''),
      (''return_type'', JStr ''''), (''args'', JList []), (''type'', JStr ''data_type'')]"

text \<open>The body of the loop over \<^verbatim>\<open>lines[1:]\<close>.\<close>

definition data_type_line :: "string \<Rightarrow> entry \<Rightarrow> entry" where
  "data_type_line raw entry =
     (let line = py_strip raw in
      if startswith line ''Description:''
      then set_item entry ''description'' (JStr (py_strip (py_remove line ''Description:'')))
      else if startswith line ''Definition type:''
      then set_item entry ''definition_type'' (JStr (py_strip (py_remove line ''Definition type:'')))
      else if startswith line ''Return type:''
      then set_item entry ''return_type'' (JStr (py_strip (py_remove line ''Return type:'')))
      else entry)"

text \<open>The body of the loop over \<^verbatim>\<open>items\<close>: \<open>None\<close> where the source continues
  without appending.\<close>

definition parse_data_type_item :: "string \<Rightarrow> entry option" where
  "parse_data_type_item raw =
     (let item = py_strip raw in
      if item = [] then None
      else case py_split item [NL] of
             [] \<Rightarrow> None
           | l0 # ls \<Rightarrow>
               (let first_line = py_strip l0;
                    entry1 = (case match_declaration first_line of
                        Some (name, args_str) \<Rightarrow>
                          (let e = set_item data_type_entry ''name'' (JStr name) in
                           if args_str = [] then e
                           else set_item e ''args'' (JList (map py_strip (py_split args_str '',''))))
                      | None \<Rightarrow> set_item data_type_entry ''name'' (JStr first_line));
                    entry2 = fold data_type_line ls entry1
                in if truthy (dict_get entry2 ''name'' (JStr '''')) then Some entry2 else None))"

definition parse_data_type_file :: "string \<Rightarrow> entry list" where
  "parse_data_type_file content = List.map_filter parse_data_type_item (py_split content DASH_SEP)"

subsection \<open>parse\_markdown\_log\_file\<close>

text \<open>
  \<^verbatim>\<open>re.split(r'\n##\s+', content)\<close>: a separator is a line feed, two hash signs and
  all the whitespace that follows, at least one character of it; separators are found
  from the left and the pieces between them are returned, at least one piece.
\<close>

definition heading_at :: "string \<Rightarrow> bool" where
  "heading_at s = (prefix (NL # ''##'') s \<and> (case drop 3 s of [] \<Rightarrow> False | c # cs \<Rightarrow> is_space c))"

function split_headings :: "string \<Rightarrow> string \<Rightarrow> string list" where
  "split_headings acc s =
     (if heading_at s then rev acc # split_headings [] (dropWhile is_space (drop 3 s))
      else case s of [] \<Rightarrow> [rev acc] | c # cs \<Rightarrow> split_headings (c # acc) cs)"
  by pat_completeness auto
termination
proof (relation "measure (\<lambda>(acc, s). length s)")
  fix acc s
  assume "heading_at s"
  then have "3 \<le> length s"
    by (auto simp: heading_at_def prefix_def)
  moreover have "length (dropWhile is_space (drop 3 s)) \<le> length (drop 3 s)"
    by (rule length_dropWhile_le)
  ultimately show "(([], dropWhile is_space (drop 3 s)), (acc, s)) \<in> measure (\<lambda>(acc, s). length s)"
    by simp
qed auto

declare split_headings.simps [simp del]

definition markdown_entry :: "string \<Rightarrow> entry" where
  "markdown_entry name =
     [(''name'', JStr name), (''description'', JStr ''''), (''supported_scopes'', JList []),
      (''supported_targets'', JList []), (''type'', JStr ''effect'')]"

text \<open>\<^verbatim>\<open>[s.strip() for s in text.split(',') if s.strip()]\<close>.\<close>

definition comma_list :: "string \<Rightarrow> string list" where
  "comma_list text = filter (\<lambda>s. s \<noteq> []) (map py_strip (py_split text '',''))"

text \<open>The body of the loop over \<^verbatim>\<open>lines[1:]\<close>; the state is the entry and
  \<^verbatim>\<open>description_lines\<close>.\<close>

definition markdown_line :: "string \<Rightarrow> entry \<times> string list \<Rightarrow> entry \<times> string list" where
  "markdown_line raw st =
     (let line = py_rstrip raw; entry = fst st; description_lines = snd st in
      if startswith line ''**Supported Scopes**:''
      then (set_item entry ''supported_scopes''
              (JList (comma_list (py_strip (py_remove line ''**Supported Scopes**:'')))),
            description_lines)
      else if startswith line ''**Supported Targets**:''
      then (set_item entry ''supported_targets''
              (JList (comma_list (py_strip (py_remove line ''**Supported Targets**:'')))),
            description_lines)
      else if line = [] \<or> startswith line ''**''
      then (entry, description_lines)
      else (entry, description_lines @ [line]))"

definition parse_markdown_item :: "string \<Rightarrow> entry option" where
  "parse_markdown_item item =
     (if py_strip item = [] then None
      else case py_split item [NL] of
             [] \<Rightarrow> None
           | l0 # ls \<Rightarrow>
               (let name = py_strip l0 in
                if name = [] then None
                else (let st = fold markdown_line ls (markdown_entry name, []);
                          entry = set_item (fst st) ''description''
                                    (JStr (py_strip (py_join [NL] (snd st))))
                      in if truthy (dict_get entry ''name'' (JStr '''')) then Some entry else None)))"

definition parse_markdown_log_file :: "string \<Rightarrow> entry list" where
  "parse_markdown_log_file content =
     (if str_contains content ''##''
      then List.map_filter parse_markdown_item (split_headings [] content)
      else [])"

subsection \<open>parse\_modifier\_log\_file\<close>

text \<open>
  \<^verbatim>\<open>re.match(r'Tag:\s*([^,]+),\s*Categories:\s*(.*)', line)\<close>, giving groups 1 and 2.
  After \<^verbatim>\<open>Tag:\<close> group 1 must end at the first comma and hold at least one
  character, so the greedy \<^verbatim>\<open>\s*\<close> before it takes all the leading whitespace
  unless the comma follows it at once, where it gives one whitespace character back to
  the group. After the comma and optional whitespace comes \<^verbatim>\<open>Categories:\<close>; group 2
  is what follows the whitespace after it, up to the end of the line.
\<close>

definition match_tag_line :: "string \<Rightarrow> (string \<times> string) option" where
  "match_tag_line line =
     (if startswith line ''Tag:''
      then (let r = drop 4 line;
                w = length (takeWhile is_space r);
                head = takeWhile (\<lambda>c. c \<noteq> CHR '','') r;
                after = dropWhile (\<lambda>c. c \<noteq> CHR '','') r
            in if head = [] \<or> after = [] then None
               else (let t = py_lstrip (tl after) in
                     if startswith t ''Categories:''
                     then Some (drop (if w < length head then w else w - 1) head,
                                takeWhile (\<lambda>c. c \<noteq> NL) (py_lstrip (drop 11 t)))
                     else None))
      else None)"

text \<open>The body of the loop over the lines.\<close>

definition parse_modifier_line :: "string \<Rightarrow> entry option" where
  "parse_modifier_line raw =
     (let line = py_strip raw in
      if line = [] \<or> startswith line ''Printing'' then None
      else case match_tag_line line of
             None \<Rightarrow> None
           | Some (g1, g2) \<Rightarrow>
               (let name = py_strip g1;
                    categories_str = py_strip g2;
                    categories = filter (\<lambda>c. c \<noteq> [] \<and> c \<noteq> ''All'')
                                   (map py_strip (py_split categories_str '',''))
                in Some [(''name'', JStr name), (''description'', JStr ''''),
                         (''categories'', JList categories), (''type'', JStr ''modifier'')]))"

definition parse_modifier_log_file :: "string \<Rightarrow> entry list" where
  "parse_modifier_log_file content = List.map_filter parse_modifier_line (readlines content)"

subsection \<open>parse\_log\_file\<close>

text \<open>The parser is chosen by \<open>file_name\<close>, the stem of the path (\<^verbatim>\<open>triggers\<close> for
  \<^verbatim>\<open>docs/triggers.log\<close>).\<close>

definition parse_log_file :: "string \<Rightarrow> string \<Rightarrow> entry list" where
  "parse_log_file file_name content =
     (if file_name = ''modifiers'' then parse_modifier_log_file content
      else parse_markdown_log_file content)"

section \<open>Library operations the search code calls\<close>

subsection \<open>Slicing and sorting\<close>

text \<open>\<^verbatim>\<open>xs[:n]\<close>: the first \<open>n\<close> elements for \<open>n \<ge> 0\<close>; for a negative \<open>n\<close> all
  but the last \<open>-n\<close> elements.\<close>

definition slice_to :: "'a list \<Rightarrow> int \<Rightarrow> 'a list" where
  "slice_to xs n = (if 0 \<le> n then take (nat n) xs else take (length xs - nat (- n)) xs)"

definition similarity_of :: "entry \<Rightarrow> rat" where
  "similarity_of x = (case map_of x ''similarity'' of Some (JNum r) \<Rightarrow> r | _ \<Rightarrow> 0)"

text \<open>\<^verbatim>\<open>results.sort(key=lambda x: x['similarity'], reverse=True)\<close>: a stable sort,
  largest similarity first, entries of equal similarity in their old order. It is applied
  only to entries that have just been given a numeric similarity.\<close>

definition sort_by_similarity :: "entry list \<Rightarrow> entry list" where
  "sort_by_similarity results = sort_key (\<lambda>x. - similarity_of x) results"

subsection \<open>difflib.SequenceMatcher(None, a, b).ratio()\<close>

text \<open>
  The ratio is \<open>2 * M / T\<close>: \<open>T\<close> is the number of characters of both strings and \<open>M\<close>
  the number of characters in the matching blocks, found by taking the longest block the
  two strings share (the one that starts earliest in \<open>a\<close>, then earliest in \<open>b\<close>) and
  repeating on the pieces to its left and to its right. Two empty strings have ratio 1.
  This is the library's result for a second string under 200 characters (longer ones go
  through its popularity heuristic). The search functions below take the ratio as a
  parameter, so that what is proved of them for every ratio holds for the library's; this
  model of it is used to evaluate them on concrete inputs. Python computes the ratio
  and the threshold 0.6 in floating point, the model in rationals; the comparison agrees
  for strings of any realistic length, since a ratio other than 3/5 differs from it by at
  least \<open>1 / (5 * T)\<close>.
\<close>

fun common_prefix_len :: "string \<Rightarrow> string \<Rightarrow> nat" where
  "common_prefix_len (x # xs) (y # ys) = (if x = y then Suc (common_prefix_len xs ys) else 0)"
| "common_prefix_len xs ys = 0"

fun best_match :: "string \<Rightarrow> string \<Rightarrow> (nat \<times> nat) list \<Rightarrow> nat \<times> nat \<times> nat \<Rightarrow> nat \<times> nat \<times> nat" where
  "best_match a b [] best = best"
| "best_match a b ((i, j) # ps) (bi, bj, bk) =
     (let k = common_prefix_len (drop i a) (drop j b)
      in best_match a b ps (if bk < k then (i, j, k) else (bi, bj, bk)))"

definition find_longest_match :: "string \<Rightarrow> string \<Rightarrow> nat \<times> nat \<times> nat" where
  "find_longest_match a b =
     best_match a b (List.product [0..<length a] [0..<length b]) (0, 0, 0)"

lemma best_match_start:
  assumes "list_all (\<lambda>p. fst p < n) ps" and "snd (snd best) = 0 \<or> fst best < n"
  shows "snd (snd (best_match a b ps best)) = 0 \<or> fst (best_match a b ps best) < n"
  using assms
proof (induction ps arbitrary: best)
  case Nil
  then show ?case by simp
next
  case (Cons p ps)
  obtain i j where p: "p = (i, j)" by (cases p)
  obtain bi bj bk where best: "best = (bi, bj, bk)" by (cases best)
  from Cons.prems have "i < n" and rest: "list_all (\<lambda>p. fst p < n) ps"
    by (simp_all add: p)
  let ?k = "common_prefix_len (drop i a) (drop j b)"
  let ?next = "if bk < ?k then (i, j, ?k) else (bi, bj, bk)"
  have "snd (snd ?next) = 0 \<or> fst ?next < n"
    using Cons.prems(2) \<open>i < n\<close> by (simp add: best)
  from Cons.IH [OF rest this] show ?case
    by (simp add: p best Let_def)
qed

lemma find_longest_match_start:
  assumes "find_longest_match a b = (i, j, k)" and "k \<noteq> 0"
  shows "i < length a"
proof -
  have "list_all (\<lambda>p. fst p < length a) (List.product [0..<length a] [0..<length b])"
    by (auto simp: list_all_iff)
  from best_match_start [OF this, of "(0, 0, 0)" a b] assms show ?thesis
    by (simp add: find_longest_match_def)
qed

function matching_size :: "string \<Rightarrow> string \<Rightarrow> nat" where
  "matching_size a b =
     (case find_longest_match a b of
        (i, j, k) \<Rightarrow>
          if k = 0 then 0
          else matching_size (take i a) (take j b) + k
               + matching_size (drop (i + k) a) (drop (j + k) b))"
  by pat_completeness auto
termination
proof (relation "measure (\<lambda>(a, b). length a)")
  fix a b :: string and x i y j k
  assume "(i, y) = find_longest_match a b" and "(j, k) = y" and "k \<noteq> 0"
  then have "i < length a"
    using find_longest_match_start [of a b i j k] by simp
  then show "((take i a, take j b), (a, b)) \<in> measure (\<lambda>(a, b). length a)"
    and "((drop (i + k) a, drop (j + k) b), (a, b)) \<in> measure (\<lambda>(a, b). length a)"
    using \<open>k \<noteq> 0\<close> by simp_all
qed simp

declare matching_size.simps [simp del]

definition sequence_ratio :: "string \<Rightarrow> string \<Rightarrow> rat" where
  "sequence_ratio a b =
     (if length a + length b = 0 then 1
      else of_nat (2 * matching_size a b) / of_nat (length a + length b))"

subsection \<open>Operations on values that may raise\<close>

definition bind_e :: "error + 'a \<Rightarrow> ('a \<Rightarrow> error + 'b) \<Rightarrow> error + 'b" where
  "bind_e m f = (case m of Inl e \<Rightarrow> Inl e | Inr x \<Rightarrow> f x)"

text \<open>A list comprehension \<^verbatim>\<open>[e for e in xs if p(e)]\<close> whose condition may raise: the
  first element that raises ends the whole comprehension.\<close>

fun filter_e :: "('a \<Rightarrow> error + bool) \<Rightarrow> 'a list \<Rightarrow> error + 'a list" where
  "filter_e p [] = Inr []"
| "filter_e p (x # xs) =
     bind_e (p x) (\<lambda>keep. bind_e (filter_e p xs) (\<lambda>ys. Inr (if keep then x # ys else ys)))"

text \<open>\<^verbatim>\<open>v.lower()\<close>: only a string has the method.\<close>

fun lower_of :: "jvalue \<Rightarrow> error + string" where
  "lower_of (JStr s) = Inr (py_lower s)"
| "lower_of (JList xs) = Inl AttributeError"
| "lower_of (JNum r) = Inl AttributeError"

text \<open>\<^verbatim>\<open>q in v\<close> for a string \<open>q\<close>: membership in a list, substring of a string; a
  number is not a container.\<close>

fun py_in :: "string \<Rightarrow> jvalue \<Rightarrow> error + bool" where
  "py_in q (JList xs) = Inr (q \<in> set xs)"
| "py_in q (JStr s) = Inr (str_contains s q)"
| "py_in q (JNum r) = Inl TypeError"

text \<open>\<^verbatim>\<open>for s in v\<close>: the elements of a list, the characters of a string (each a
  string of length one); a number is not iterable.\<close>

fun elements_of :: "jvalue \<Rightarrow> error + string list" where
  "elements_of (JList xs) = Inr xs"
| "elements_of (JStr s) = Inr (map (\<lambda>c. [c]) s)"
| "elements_of (JNum r) = Inl TypeError"

text \<open>A value used as a set element or looked up in a set must be hashable: a list is
  not.\<close>

fun hashable :: "jvalue \<Rightarrow> error + jvalue" where
  "hashable (JList xs) = Inl TypeError"
| "hashable v = Inr v"

section \<open>DataHandler (src/data\_handler.py)\<close>

record data_handler =
  index :: "(string \<times> entry list) list"
  all_data :: "entry list"
  modifiers :: "entry list"
  effects :: "entry list"
  triggers :: "entry list"
  event_targets :: "entry list"
  data_types_by_category :: "(string \<times> entry list) list"

text \<open>The \<^verbatim>\<open>results\<close> list of the fuzzy loop: for every key of the index, in its order,
  whose similarity to the query exceeds 0.6, a copy of each of its entries with the
  similarity set.\<close>

definition fuzzy_results :: "(string \<Rightarrow> string \<Rightarrow> rat) \<Rightarrow> (string \<times> entry list) list \<Rightarrow> string \<Rightarrow> entry list" where
  "fuzzy_results ratio idx name_lower =
     concat (map (\<lambda>(key, entries).
                    let similarity = ratio name_lower key in
                    if 6 / 10 < similarity
                    then map (\<lambda>entry. set_item entry ''similarity'' (JNum similarity)) entries
                    else [])
                 idx)"

definition handler_search_by_name ::
    "(string \<Rightarrow> string \<Rightarrow> rat) \<Rightarrow> 'a data_handler_scheme \<Rightarrow> string \<Rightarrow> bool \<Rightarrow> int \<Rightarrow> entry list" where
  "handler_search_by_name ratio h name fuzzy limit =
     (let name_lower = py_lower name in
      case map_of (index h) name_lower of
        Some entries \<Rightarrow> slice_to entries limit
      | None \<Rightarrow>
          if fuzzy
          then slice_to (sort_by_similarity (fuzzy_results ratio (index h) name_lower)) limit
          else [])"

text \<open>The condition shared by \<^verbatim>\<open>search_modifiers\<close>, \<^verbatim>\<open>search_effects\<close>,
  \<^verbatim>\<open>search_triggers\<close> and \<^verbatim>\<open>search_event_targets\<close>; \<^verbatim>\<open>or\<close> does not look at the
  description when the name matches.\<close>

definition text_match :: "string \<Rightarrow> entry \<Rightarrow> error + bool" where
  "text_match query_lower item =
     bind_e (lower_of (dict_get item ''name'' (JStr ''''))) (\<lambda>n.
       if str_contains n query_lower then Inr True
       else bind_e (lower_of (dict_get item ''description'' (JStr ''''))) (\<lambda>d.
              Inr (str_contains d query_lower)))"

definition text_results :: "entry list \<Rightarrow> string \<Rightarrow> error + entry list" where
  "text_results items query = filter_e (text_match (py_lower query)) items"

definition search_modifiers :: "'a data_handler_scheme \<Rightarrow> string \<Rightarrow> int \<Rightarrow> error + entry list" where
  "search_modifiers h query limit =
     bind_e (text_results (modifiers h) query) (\<lambda>results. Inr (slice_to results limit))"

definition search_effects :: "'a data_handler_scheme \<Rightarrow> string \<Rightarrow> int \<Rightarrow> error + entry list" where
  "search_effects h query limit =
     bind_e (text_results (effects h) query) (\<lambda>results. Inr (slice_to results limit))"

definition search_triggers :: "'a data_handler_scheme \<Rightarrow> string \<Rightarrow> int \<Rightarrow> error + entry list" where
  "search_triggers h query limit =
     bind_e (text_results (triggers h) query) (\<lambda>results. Inr (slice_to results limit))"

definition search_event_targets :: "'a data_handler_scheme \<Rightarrow> string \<Rightarrow> int \<Rightarrow> error + entry list" where
  "search_event_targets h query limit =
     bind_e (text_results (event_targets h) query) (\<lambda>results. Inr (slice_to results limit))"

text \<open>\<^verbatim>\<open>item.get('type') == data_type\<close>: a missing key gives \<^verbatim>\<open>None\<close>, which equals
  no string.\<close>

definition type_results :: "'a data_handler_scheme \<Rightarrow> string \<Rightarrow> entry list" where
  "type_results h data_type = filter (\<lambda>item. map_of item ''type'' = Some (JStr data_type)) (all_data h)"

definition get_data_by_type :: "'a data_handler_scheme \<Rightarrow> string \<Rightarrow> int \<Rightarrow> entry list" where
  "get_data_by_type h data_type limit = slice_to (type_results h data_type) limit"

definition scope_results :: "'a data_handler_scheme \<Rightarrow> string \<Rightarrow> error + entry list" where
  "scope_results h scope = filter_e (\<lambda>item. py_in scope (dict_get item ''scopes'' (JList []))) (all_data h)"

definition get_data_by_scope :: "'a data_handler_scheme \<Rightarrow> string \<Rightarrow> int \<Rightarrow> error + entry list" where
  "get_data_by_scope h scope limit =
     bind_e (scope_results h scope) (\<lambda>results. Inr (slice_to results limit))"

section \<open>DataSearcher (scripts/data\_searcher.py)\<close>

record data_searcher =
  searcher_index :: "(string \<times> entry list) list"
  searcher_all_data :: "entry list"

text \<open>The fuzzy loop of \<^verbatim>\<open>DataSearcher.search_by_name\<close> assigns
  \<^verbatim>\<open>entry['similarity']\<close> on the entries of the index themselves: this is the index after
  the loop. The entries of the index are distinct objects (they come from one
  \<^verbatim>\<open>json.load\<close>), so the loop changes each entry under a matching key and nothing
  else.\<close>

definition mark_similarity :: "(string \<Rightarrow> string \<Rightarrow> rat) \<Rightarrow> string \<Rightarrow> (string \<times> entry list) list \<Rightarrow> (string \<times> entry list) list" where
  "mark_similarity ratio name_lower idx =
     map (\<lambda>(key, entries).
            let similarity = ratio name_lower key in
            (key, if 6 / 10 < similarity
                  then map (\<lambda>entry. set_item entry ''similarity'' (JNum similarity)) entries
                  else entries))
         idx"

text \<open>The result and the searcher after the call.\<close>

definition searcher_search_by_name ::
    "(string \<Rightarrow> string \<Rightarrow> rat) \<Rightarrow> data_searcher \<Rightarrow> string \<Rightarrow> bool \<Rightarrow> entry list \<times> data_searcher" where
  "searcher_search_by_name ratio s name fuzzy =
     (let name_lower = py_lower name in
      case map_of (searcher_index s) name_lower of
        Some entries \<Rightarrow> (entries, s)
      | None \<Rightarrow>
          if fuzzy
          then (slice_to (sort_by_similarity (fuzzy_results ratio (searcher_index s) name_lower)) 20,
                s\<lparr>searcher_index := mark_similarity ratio name_lower (searcher_index s)\<rparr>)
          else ([], s))"





definition search_by_type :: "data_searcher \<Rightarrow> string \<Rightarrow> error + entry list" where
  "search_by_type s return_type =
     filter_e (\<lambda>e. bind_e (lower_of (dict_get e ''return_type'' (JStr '''')))
                      (\<lambda>r. Inr (r = py_lower return_type)))
              (searcher_all_data s)"

text \<open>The condition of \<^verbatim>\<open>search_by_scopes\<close>; the type is looked at only when a scope
  matches.\<close>

definition scope_match :: "string \<Rightarrow> string option \<Rightarrow> entry \<Rightarrow> error + bool" where
  "scope_match scope_lower entry_type e =
     bind_e (elements_of (dict_get e ''supported_scopes'' (JList []))) (\<lambda>supported_scopes.
       if list_ex (\<lambda>s. py_lower s = scope_lower) supported_scopes
       then (case entry_type of
               None \<Rightarrow> Inr True
             | Some t \<Rightarrow> bind_e (lower_of (dict_get e ''type'' (JStr ''''))) (\<lambda>k. Inr (k = py_lower t)))
       else Inr False)"

definition search_by_scopes :: "data_searcher \<Rightarrow> string \<Rightarrow> string option \<Rightarrow> error + entry list" where
  "search_by_scopes s scope entry_type =
     filter_e (scope_match (py_lower scope) entry_type) (searcher_all_data s)"

definition search_by_category :: "data_searcher \<Rightarrow> string \<Rightarrow> error + entry list" where
  "search_by_category s category =
     filter_e (\<lambda>e. bind_e (get_item e ''category'') (\<lambda>v. bind_e (lower_of v)
                      (\<lambda>c. Inr (c = py_lower category))))
              (searcher_all_data s)"

definition search_by_description :: "data_searcher \<Rightarrow> string \<Rightarrow> error + entry list" where
  "search_by_description s keyword =
     filter_e (\<lambda>e. bind_e (get_item e ''description'') (\<lambda>v. bind_e (lower_of v)
                      (\<lambda>d. Inr (str_contains d (py_lower keyword)))))
              (searcher_all_data s)"

text \<open>\<^verbatim>\<open>{e['name'] for e in name_results}\<close>, as the list of its elements.\<close>

fun result_names :: "entry list \<Rightarrow> error + jvalue list" where
  "result_names [] = Inr []"
| "result_names (e # es) =
     bind_e (bind_e (get_item e ''name'') hashable) (\<lambda>n.
       bind_e (result_names es) (\<lambda>ns. Inr (n # ns)))"

text \<open>
  \<^verbatim>\<open>advanced_search(**kwargs)\<close>: the keyword arguments are a dictionary from names to
  strings. The four keys \<^verbatim>\<open>name\<close>, \<^verbatim>\<open>return_type\<close>, \<^verbatim>\<open>category\<close> and
  \<^verbatim>\<open>description\<close> are looked at, in this order, each narrowing \<^verbatim>\<open>results\<close>; every
  other key is ignored. The four blocks of the function are the four definitions that
  follow. The name block calls \<^verbatim>\<open>search_by_name\<close>, so it also gives the searcher after
  the call.
\<close>

definition narrow_by_name ::
    "(string \<Rightarrow> string \<Rightarrow> rat) \<Rightarrow> data_searcher \<Rightarrow> (string \<times> string) list
       \<Rightarrow> (error + entry list) \<times> data_searcher" where
  "narrow_by_name ratio s kwargs =
     (case map_of kwargs ''name'' of
        None \<Rightarrow> (Inr (searcher_all_data s), s)
      | Some name \<Rightarrow>
          (let found = searcher_search_by_name ratio s name True in
           (bind_e (result_names (fst found)) (\<lambda>names.
              filter_e (\<lambda>e. bind_e (bind_e (get_item e ''name'') hashable)
                               (\<lambda>n. Inr (n \<in> set names)))
                       (searcher_all_data s)),
            snd found)))"

definition narrow_by_return_type :: "(string \<times> string) list \<Rightarrow> error + entry list \<Rightarrow> error + entry list" where
  "narrow_by_return_type kwargs results =
     (case map_of kwargs ''return_type'' of
        None \<Rightarrow> results
      | Some return_type \<Rightarrow>
          bind_e results (filter_e (\<lambda>e.
            bind_e (get_item e ''return_type'') (\<lambda>v. bind_e (lower_of v)
              (\<lambda>r. Inr (r = py_lower return_type))))))"

definition narrow_by_category :: "(string \<times> string) list \<Rightarrow> error + entry list \<Rightarrow> error + entry list" where
  "narrow_by_category kwargs results =
     (case map_of kwargs ''category'' of
        None \<Rightarrow> results
      | Some category \<Rightarrow>
          bind_e results (filter_e (\<lambda>e.
            bind_e (get_item e ''category'') (\<lambda>v. bind_e (lower_of v)
              (\<lambda>c. Inr (c = py_lower category))))))"

definition narrow_by_description :: "(string \<times> string) list \<Rightarrow> error + entry list \<Rightarrow> error + entry list" where
  "narrow_by_description kwargs results =
     (case map_of kwargs ''description'' of
        None \<Rightarrow> results
      | Some description \<Rightarrow>
          bind_e results (filter_e (\<lambda>e.
            bind_e (get_item e ''description'') (\<lambda>v. bind_e (lower_of v)
              (\<lambda>d. Inr (str_contains d (py_lower description)))))))"

definition advanced_search ::
    "(string \<Rightarrow> string \<Rightarrow> rat) \<Rightarrow> data_searcher \<Rightarrow> (string \<times> string) list
       \<Rightarrow> (error + entry list) \<times> data_searcher" where
  "advanced_search ratio s kwargs =
     (let named = narrow_by_name ratio s kwargs
      in (narrow_by_description kwargs
            (narrow_by_category kwargs (narrow_by_return_type kwargs (fst named))),
          snd named))"

section \<open>Well-formed Records and an example store\<close>

text \<open>A Record carries a string under a key.\<close>

definition has_str :: "entry \<Rightarrow> string \<Rightarrow> bool" where
  "has_str e k = (case map_of e k of Some (JStr s) \<Rightarrow> True | _ \<Rightarrow> False)"

definition str_of :: "entry \<Rightarrow> string \<Rightarrow> string" where
  "str_of e k = (case map_of e k of Some (JStr s) \<Rightarrow> s | _ \<Rightarrow> [])"

definition results_of :: "error + 'a list \<Rightarrow> 'a list" where
  "results_of r = (case r of Inl e \<Rightarrow> [] | Inr xs \<Rightarrow> xs)"

text \<open>The Record of the effect \<^verbatim>\<open>add_gold\<close> as the converter writes it to
  \<^verbatim>\<open>all_data.json\<close> (the parsed entry, then its category) and to \<^verbatim>\<open>index.json\<close>; a
  second effect; and the two classes loaded with them.\<close>

definition add_gold :: entry where
  "add_gold =
     [(''name'', JStr ''add_gold''), (''description'', JStr ''Grants gold.''),
      (''supported_scopes'', JList [''country'', ''province'']),
      (''supported_targets'', JList []), (''type'', JStr ''effect''),
      (''category'', JStr ''effects'')]"

definition add_gold_indexed :: entry where
  "add_gold_indexed =
     [(''category'', JStr ''effects''), (''name'', JStr ''add_gold''),
      (''description'', JStr ''Grants gold.''), (''type'', JStr ''effect''),
      (''supported_scopes'', JList [''country'', ''province'']),
      (''supported_targets'', JList [])]"

definition add_army :: entry where
  "add_army =
     [(''name'', JStr ''add_army''), (''description'', JStr ''Raises an army.''),
      (''supported_scopes'', JList [''country'']),
      (''supported_targets'', JList []), (''type'', JStr ''effect''),
      (''category'', JStr ''effects'')]"

definition add_army_indexed :: entry where
  "add_army_indexed =
     [(''category'', JStr ''effects''), (''name'', JStr ''add_army''),
      (''description'', JStr ''Raises an army.''), (''type'', JStr ''effect''),
      (''supported_scopes'', JList [''country'']),
      (''supported_targets'', JList [])]"

definition example_handler :: data_handler where
  "example_handler =
     \<lparr>index = [(''add_gold'', [add_gold_indexed]), (''add_army'', [add_army_indexed])],
      all_data = [add_gold, add_army],
      modifiers = [], effects = [add_gold, add_army], triggers = [], event_targets = [],
      data_types_by_category = []\<rparr>"

definition example_searcher :: data_searcher where
  "example_searcher =
     \<lparr>searcher_index = [(''add_gold'', [add_gold_indexed]), (''add_army'', [add_army_indexed])],
      searcher_all_data = [add_gold, add_army]\<rparr>"

text \<open>A Record has a list, or a string, under a key or lacks the key, where the code
  reads it with a default.\<close>

definition list_or_absent :: "entry \<Rightarrow> string \<Rightarrow> bool" where
  "list_or_absent e k = (case map_of e k of None \<Rightarrow> True | Some (JList xs) \<Rightarrow> True | Some v \<Rightarrow> False)"

definition str_or_absent :: "entry \<Rightarrow> string \<Rightarrow> bool" where
  "str_or_absent e k = (case map_of e k of None \<Rightarrow> True | Some (JStr s) \<Rightarrow> True | Some v \<Rightarrow> False)"

definition list_of :: "entry \<Rightarrow> string \<Rightarrow> string list" where
  "list_of e k = (case map_of e k of Some (JList xs) \<Rightarrow> xs | _ \<Rightarrow> [])"

text \<open>A searcher loaded with two data types, the first the one of the delimiter-block
  scenario.\<close>

definition date_type :: entry where
  "date_type =
     [(''name'', JStr ''DATE''), (''description'', JStr ''test''), (''definition_type'', JStr ''''),
      (''return_type'', JStr ''int''), (''args'', JList [''arg1'']), (''type'', JStr ''data_type''),
      (''category'', JStr ''common'')]"

definition date_type_indexed :: entry where
  "date_type_indexed =
     [(''category'', JStr ''common''), (''name'', JStr ''DATE''), (''description'', JStr ''test''),
      (''type'', JStr ''data_type''), (''definition_type'', JStr ''''),
      (''return_type'', JStr ''int''), (''args'', JList [''arg1''])]"

definition name_type :: entry where
  "name_type =
     [(''name'', JStr ''GetName''), (''description'', JStr ''''), (''definition_type'', JStr ''Function''),
      (''return_type'', JStr ''CString''), (''args'', JList []), (''type'', JStr ''data_type''),
      (''category'', JStr ''common'')]"

definition name_type_indexed :: entry where
  "name_type_indexed =
     [(''category'', JStr ''common''), (''name'', JStr ''GetName''), (''description'', JStr ''''),
      (''type'', JStr ''data_type''), (''definition_type'', JStr ''Function''),
      (''return_type'', JStr ''CString''), (''args'', JList [])]"

definition types_searcher :: data_searcher where
  "types_searcher =
     \<lparr>searcher_index = [(''date'', [date_type_indexed]), (''getname'', [name_type_indexed])],
      searcher_all_data = [date_type, name_type]\<rparr>"







section \<open>Facts about the library operations\<close>

text \<open>Slices, the sort by similarity, and filters whose condition does not raise on the
  Records at hand.\<close>

lemma length_slice_to_le: "0 \<le> n \<Longrightarrow> int (length (slice_to xs n)) \<le> n"
  by (simp add: slice_to_def)

lemma length_slice_to_neg: "n < 0 \<Longrightarrow> length (slice_to xs n) = length xs - nat (- n)"
  by (simp add: slice_to_def)

lemma sorted_wrt_slice_to: "sorted_wrt R xs \<Longrightarrow> sorted_wrt R (slice_to xs n)"
  by (simp add: slice_to_def sorted_wrt_take)

lemma sorted_by_similarity:
  "sorted_wrt (\<lambda>x y. similarity_of y \<le> similarity_of x) (sort_by_similarity results)"
proof -
  have "sorted (map (\<lambda>x. - similarity_of x) (sort_by_similarity results))"
    unfolding sort_by_similarity_def by (rule sorted_sort_key)
  then show ?thesis
    by (simp add: sorted_map)
qed

lemma limited_results:
  assumes "bind_e m (\<lambda>results. Inr (slice_to results limit)) = Inr rs"
  shows "\<exists>results. m = Inr results \<and> rs = slice_to results limit"
  using assms by (cases m) (auto simp: bind_e_def)

lemma map_of_set_item: "map_of (set_item d k v) k' = (if k' = k then Some v else map_of d k')"
  by (simp add: set_item_def update_conv')

lemma set_slice_to: "set (slice_to xs n) \<subseteq> set xs"
  by (auto simp: slice_to_def dest: in_set_takeD)

lemma set_sort_by_similarity: "set (sort_by_similarity results) = set results"
  by (simp add: sort_by_similarity_def)

lemma fuzzy_results_member:
  assumes "e \<in> set (fuzzy_results ratio idx q)"
  shows "\<exists>key entries entry. (key, entries) \<in> set idx \<and> entry \<in> set entries
           \<and> 6 / 10 < ratio q key
           \<and> e = set_item entry ''similarity'' (JNum (ratio q key))"
  using assms by (auto simp: fuzzy_results_def Let_def split: if_splits)

lemma filter_e_Inr:
  assumes "\<And>x. x \<in> set xs \<Longrightarrow> p x = Inr (q x)"
  shows "filter_e p xs = Inr (filter q xs)"
  using assms by (induction xs) (simp_all add: bind_e_def)

lemma has_str_get_item: "has_str e k \<Longrightarrow> get_item e k = Inr (JStr (str_of e k))"
  by (auto simp: has_str_def get_item_def str_of_def split: option.splits jvalue.splits)

lemma has_str_dict_get: "has_str e k \<Longrightarrow> dict_get e k d = JStr (str_of e k)"
  by (auto simp: has_str_def dict_get_def str_of_def split: option.splits jvalue.splits)

lemma has_str_set_item: "k' \<noteq> k \<Longrightarrow> has_str (set_item e k v) k' = has_str e k'"
  by (simp add: has_str_def map_of_set_item)

lemma str_of_set_item: "k' \<noteq> k \<Longrightarrow> str_of (set_item e k v) k' = str_of e k'"
  by (simp add: str_of_def map_of_set_item)

lemma narrow_step:
  assumes "\<And>e. e \<in> set xs \<Longrightarrow> p e = Inr (q e)"
  shows "bind_e (Inr (filter P xs)) (filter_e p) = Inr (filter (\<lambda>e. P e \<and> q e) xs)"
proof -
  have "filter_e p (filter P xs) = Inr (filter q (filter P xs))"
    by (rule filter_e_Inr) (simp add: assms)
  then show ?thesis
    by (simp add: bind_e_def)
qed

lemma search_by_category_Inr:
  assumes "list_all (\<lambda>e. has_str e ''category'') (searcher_all_data s)"
  shows "search_by_category s category
           = Inr (filter (\<lambda>e. py_lower (str_of e ''category'') = py_lower category) (searcher_all_data s))"
  unfolding search_by_category_def
  by (rule filter_e_Inr) (use assms in \<open>simp add: list_all_iff has_str_get_item bind_e_def\<close>)

lemma search_by_description_Inr:
  assumes "list_all (\<lambda>e. has_str e ''description'') (searcher_all_data s)"
  shows "search_by_description s keyword
           = Inr (filter (\<lambda>e. str_contains (py_lower (str_of e ''description'')) (py_lower keyword))
                    (searcher_all_data s))"
  unfolding search_by_description_def
  by (rule filter_e_Inr) (use assms in \<open>simp add: list_all_iff has_str_get_item bind_e_def\<close>)

lemma search_by_type_Inr:
  assumes "list_all (\<lambda>e. has_str e ''return_type'') (searcher_all_data s)"
  shows "search_by_type s return_type
           = Inr (filter (\<lambda>e. py_lower (str_of e ''return_type'') = py_lower return_type) (searcher_all_data s))"
  unfolding search_by_type_def
  by (rule filter_e_Inr) (use assms in \<open>simp add: list_all_iff has_str_dict_get bind_e_def\<close>)

lemma result_names_Inr:
  assumes "list_all (\<lambda>e. has_str e ''name'') es"
  shows "result_names es = Inr (map (\<lambda>e. JStr (str_of e ''name'')) es)"
  using assms by (induction es) (simp_all add: has_str_get_item bind_e_def)

lemma found_have_names:
  assumes "list_all (\<lambda>ke. list_all (\<lambda>e. has_str e ''name'') (snd ke)) (searcher_index s)"
  shows "list_all (\<lambda>e. has_str e ''name'') (fst (searcher_search_by_name ratio s name fuzzy))"
proof (cases "map_of (searcher_index s) (py_lower name)")
  case None
  have "has_str e ''name''" if "e \<in> set (fuzzy_results ratio (searcher_index s) (py_lower name))" for e
  proof -
    from fuzzy_results_member [OF that] obtain key entries entry where
      "(key, entries) \<in> set (searcher_index s)" "entry \<in> set entries"
      "e = set_item entry ''similarity'' (JNum (ratio (py_lower name) key))"
      by blast
    with assms show ?thesis
      by (force simp: list_all_iff has_str_set_item)
  qed
  then have "list_all (\<lambda>e. has_str e ''name'')
      (slice_to (sort_by_similarity (fuzzy_results ratio (searcher_index s) (py_lower name))) 20)"
    using set_slice_to [of "sort_by_similarity (fuzzy_results ratio (searcher_index s) (py_lower name))" 20]
    by (auto simp: list_all_iff set_sort_by_similarity)
  with None show ?thesis
    by (simp add: searcher_search_by_name_def Let_def)
next
  case (Some entries)
  then have "(py_lower name, entries) \<in> set (searcher_index s)"
    by (rule map_of_SomeD)
  with assms have "list_all (\<lambda>e. has_str e ''name'') entries"
    by (force simp: list_all_iff)
  with Some show ?thesis
    by (simp add: searcher_search_by_name_def Let_def)
qed

lemma narrow_by_name_Inr:
  assumes "list_all (\<lambda>e. has_str e ''name'') (searcher_all_data s)"
    and "list_all (\<lambda>ke. list_all (\<lambda>e. has_str e ''name'') (snd ke)) (searcher_index s)"
  shows "fst (narrow_by_name ratio s kwargs)
           = Inr (filter (\<lambda>e. case map_of kwargs ''name'' of
                                None \<Rightarrow> True
                              | Some name \<Rightarrow> str_of e ''name''
                                  \<in> set (map (\<lambda>r. str_of r ''name'')
                                           (fst (searcher_search_by_name ratio s name True))))
                    (searcher_all_data s))"
proof (cases "map_of kwargs ''name''")
  case None
  then show ?thesis by (simp add: narrow_by_name_def)
next
  case (Some name)
  let ?found = "fst (searcher_search_by_name ratio s name True)"
  let ?names = "map (\<lambda>e. JStr (str_of e ''name'')) ?found"
  have names: "result_names ?found = Inr ?names"
    by (rule result_names_Inr) (rule found_have_names [OF assms(2)])
  have "fst (narrow_by_name ratio s kwargs)
          = bind_e (result_names ?found) (\<lambda>names.
              filter_e (\<lambda>e. bind_e (bind_e (get_item e ''name'') hashable)
                               (\<lambda>n. Inr (n \<in> set names)))
                       (searcher_all_data s))"
    using Some by (simp add: narrow_by_name_def Let_def)
  also have "\<dots> = filter_e (\<lambda>e. bind_e (bind_e (get_item e ''name'') hashable)
                               (\<lambda>n. Inr (n \<in> set ?names)))
                       (searcher_all_data s)"
    unfolding names by (simp only: bind_e_def sum.case)
  also have "\<dots> = Inr (filter (\<lambda>e. str_of e ''name'' \<in> set (map (\<lambda>r. str_of r ''name'') ?found))
                 (searcher_all_data s))"
    by (rule filter_e_Inr) (use assms(1) in \<open>auto simp: list_all_iff has_str_get_item bind_e_def\<close>)
  finally show ?thesis
    using Some by simp
qed


lemma narrow_by_return_type_Inr:
  assumes "map_of kwargs ''return_type'' = None \<or> list_all (\<lambda>e. has_str e ''return_type'') xs"
  shows "narrow_by_return_type kwargs (Inr (filter P xs))
           = Inr (filter (\<lambda>e. P e \<and> (case map_of kwargs ''return_type'' of
                                          None \<Rightarrow> True
                                        | Some t \<Rightarrow> py_lower (str_of e ''return_type'') = py_lower t)) xs)"
proof (cases "map_of kwargs ''return_type''")
  case None
  then show ?thesis by (simp add: narrow_by_return_type_def)
next
  case (Some t)
  with assms have "list_all (\<lambda>e. has_str e ''return_type'') xs" by simp
  then have "bind_e (Inr (filter P xs)) (filter_e (\<lambda>e.
      bind_e (get_item e ''return_type'') (\<lambda>v. bind_e (lower_of v) (\<lambda>r. Inr (r = py_lower t)))))
    = Inr (filter (\<lambda>e. P e \<and> py_lower (str_of e ''return_type'') = py_lower t) xs)"
    by (intro narrow_step) (simp add: list_all_iff has_str_get_item bind_e_def)
  with Some show ?thesis by (simp add: narrow_by_return_type_def)
qed

lemma narrow_by_category_Inr:
  assumes "list_all (\<lambda>e. has_str e ''category'') xs"
  shows "narrow_by_category kwargs (Inr (filter P xs))
           = Inr (filter (\<lambda>e. P e \<and> (case map_of kwargs ''category'' of
                                          None \<Rightarrow> True
                                        | Some c \<Rightarrow> py_lower (str_of e ''category'') = py_lower c)) xs)"
proof (cases "map_of kwargs ''category''")
  case None
  then show ?thesis by (simp add: narrow_by_category_def)
next
  case (Some c)
  from assms have "bind_e (Inr (filter P xs)) (filter_e (\<lambda>e.
      bind_e (get_item e ''category'') (\<lambda>v. bind_e (lower_of v) (\<lambda>r. Inr (r = py_lower c)))))
    = Inr (filter (\<lambda>e. P e \<and> py_lower (str_of e ''category'') = py_lower c) xs)"
    by (intro narrow_step) (simp add: list_all_iff has_str_get_item bind_e_def)
  with Some show ?thesis by (simp add: narrow_by_category_def)
qed

lemma narrow_by_description_Inr:
  assumes "list_all (\<lambda>e. has_str e ''description'') xs"
  shows "narrow_by_description kwargs (Inr (filter P xs))
           = Inr (filter (\<lambda>e. P e \<and> (case map_of kwargs ''description'' of
                                          None \<Rightarrow> True
                                        | Some d \<Rightarrow> str_contains (py_lower (str_of e ''description'')) (py_lower d))) xs)"
proof (cases "map_of kwargs ''description''")
  case None
  then show ?thesis by (simp add: narrow_by_description_def)
next
  case (Some d)
  from assms have "bind_e (Inr (filter P xs)) (filter_e (\<lambda>e.
      bind_e (get_item e ''description'') (\<lambda>v. bind_e (lower_of v)
        (\<lambda>r. Inr (str_contains r (py_lower d))))))
    = Inr (filter (\<lambda>e. P e \<and> str_contains (py_lower (str_of e ''description'')) (py_lower d)) xs)"
    by (intro narrow_step) (simp add: list_all_iff has_str_get_item bind_e_def)
  with Some show ?thesis by (simp add: narrow_by_description_def)
qed

lemma set_map_filter: "set (List.map_filter g xs) = {y. \<exists>x \<in> set xs. g x = Some y}"
  by (induction xs) (auto simp: map_filter_simps split: option.splits)

lemma list_or_absent_dict_get: "list_or_absent e k \<Longrightarrow> dict_get e k (JList []) = JList (list_of e k)"
  by (auto simp: list_or_absent_def dict_get_def list_of_def split: option.splits jvalue.splits)

lemma str_or_absent_dict_get: "str_or_absent e k \<Longrightarrow> dict_get e k (JStr []) = JStr (str_of e k)"
  by (auto simp: str_or_absent_def dict_get_def str_of_def split: option.splits jvalue.splits)

text \<open>A string has ratio 1 to itself: its one matching block is the whole string.\<close>

lemma common_prefix_len_le: "common_prefix_len xs ys \<le> length xs"
  by (induction xs ys rule: common_prefix_len.induct) simp_all

lemma common_prefix_len_same: "common_prefix_len xs xs = length xs"
  by (induction xs) simp_all

lemma best_match_keeps:
  assumes "list_all (\<lambda>p. common_prefix_len (drop (fst p) a) (drop (snd p) b) \<le> bk) ps"
  shows "best_match a b ps (bi, bj, bk) = (bi, bj, bk)"
  using assms by (induction ps) (auto simp: Let_def)

lemma find_longest_match_same:
  assumes "a \<noteq> []"
  shows "find_longest_match a a = (0, 0, length a)"
proof -
  from assms obtain n where n: "length a = Suc n"
    by (cases a) auto
  have "List.product [0..<length a] [0..<length a]
          = (0, 0) # (map (Pair 0) [1..<length a] @ List.product [1..<length a] [0..<length a])"
    by (simp add: n upt_rec [of 0])
  moreover have "list_all (\<lambda>p. common_prefix_len (drop (fst p) a) (drop (snd p) a) \<le> length a) ps" for ps
    using le_trans [OF common_prefix_len_le] by (auto simp: list_all_iff)
  ultimately show ?thesis
    using assms by (simp add: find_longest_match_def Let_def common_prefix_len_same best_match_keeps)
qed

lemma matching_size_empty: "matching_size [] [] = 0"
  by (simp add: matching_size.simps [of "[]" "[]"] find_longest_match_def)

lemma matching_size_same: "matching_size a a = length a"
proof (cases "a = []")
  case True
  then show ?thesis by (simp add: matching_size_empty)
next
  case False
  then show ?thesis
    by (simp add: matching_size.simps [of a a] find_longest_match_same matching_size_empty)
qed

lemma sequence_ratio_same: "sequence_ratio a a = 1"
  by (simp add: sequence_ratio_def matching_size_same)



section \<open>What the parsers produce\<close>

text \<open>The loop over the lines of a heading block writes only the two scope fields, and the
  loop over the lines of a delimiter block only the three labelled fields: the name and
  the kind of an entry are the ones it started with. An entry is appended only when its
  name is not empty, so the Records of these two parsers have non-empty names; the kind is
  the constant each parser writes.\<close>

lemma markdown_line_keeps:
  assumes "k \<noteq> ''supported_scopes''" and "k \<noteq> ''supported_targets''"
  shows "map_of (fst (markdown_line raw st)) k = map_of (fst st) k"
  using assms by (simp add: markdown_line_def Let_def map_of_set_item)

lemma fold_markdown_line_keeps:
  assumes "k \<noteq> ''supported_scopes''" and "k \<noteq> ''supported_targets''"
  shows "map_of (fst (fold markdown_line ls st)) k = map_of (fst st) k"
  using assms by (induction ls arbitrary: st) (simp_all add: markdown_line_keeps)

lemma parse_markdown_item_Some:
  assumes "parse_markdown_item item = Some e"
  shows "\<exists>n. n \<noteq> [] \<and> map_of e ''name'' = Some (JStr n)"
    and "map_of e ''type'' = Some (JStr ''effect'')"
  using assms
  by (auto simp: parse_markdown_item_def Let_def map_of_set_item fold_markdown_line_keeps
      markdown_entry_def split: if_splits list.splits)

lemma markdown_records_named:
  assumes "e \<in> set (parse_markdown_log_file content)"
  shows "has_str e ''name'' \<and> str_of e ''name'' \<noteq> []"
proof -
  from assms obtain item where "parse_markdown_item item = Some e"
    by (auto simp: parse_markdown_log_file_def set_map_filter split: if_splits)
  from parse_markdown_item_Some(1) [OF this] show ?thesis
    by (auto simp: has_str_def str_of_def)
qed

lemma markdown_records_kind:
  assumes "e \<in> set (parse_log_file file_name content)" and "file_name \<noteq> ''modifiers''"
  shows "map_of e ''type'' = Some (JStr ''effect'')"
proof -
  from assms obtain item where "parse_markdown_item item = Some e"
    by (auto simp: parse_log_file_def parse_markdown_log_file_def set_map_filter split: if_splits)
  then show ?thesis
    by (rule parse_markdown_item_Some(2))
qed

lemma data_type_line_keeps:
  assumes "k \<noteq> ''description''" and "k \<noteq> ''definition_type''" and "k \<noteq> ''return_type''"
  shows "map_of (data_type_line raw entry) k = map_of entry k"
  using assms by (simp add: data_type_line_def Let_def map_of_set_item)

lemma fold_data_type_line_keeps:
  assumes "k \<noteq> ''description''" and "k \<noteq> ''definition_type''" and "k \<noteq> ''return_type''"
  shows "map_of (fold data_type_line ls entry) k = map_of entry k"
  using assms by (induction ls arbitrary: entry) (simp_all add: data_type_line_keeps)

lemma parse_data_type_item_Some:
  assumes "parse_data_type_item raw = Some e"
  shows "\<exists>n. n \<noteq> [] \<and> map_of e ''name'' = Some (JStr n)"
    and "map_of e ''type'' = Some (JStr ''data_type'')"
  using assms
  by (auto simp: parse_data_type_item_def Let_def map_of_set_item fold_data_type_line_keeps
      data_type_entry_def dict_get_def split: if_splits list.splits option.splits)

lemma data_type_records_named:
  assumes "e \<in> set (parse_data_type_file content)"
  shows "has_str e ''name'' \<and> str_of e ''name'' \<noteq> [] \<and> map_of e ''type'' = Some (JStr ''data_type'')"
proof -
  from assms obtain item where "parse_data_type_item item = Some e"
    by (auto simp: parse_data_type_file_def set_map_filter)
  from parse_data_type_item_Some [OF this] show ?thesis
    by (auto simp: has_str_def str_of_def)
qed

lemma modifier_records_kind:
  assumes "e \<in> set (parse_modifier_log_file content)"
  shows "map_of e ''type'' = Some (JStr ''modifier'')"
  using assms
  by (auto simp: parse_modifier_log_file_def set_map_filter parse_modifier_line_def Let_def
      split: if_splits option.splits)

text \<open>
  C1. The Heading-Block Parser is meant to tag each Record with the kind its source file
  selects (\<^verbatim>\<open>trigger\<close> for \<^verbatim>\<open>triggers.log\<close>). The parser writes the kind
  \<^verbatim>\<open>effect\<close> into every entry, with the comment that it will be overwritten, and
  neither it nor \<^verbatim>\<open>parse_log_file\<close> overwrites it: parsed as \<^verbatim>\<open>triggers.log\<close>, a
  source with the heading \<^verbatim>\<open>is_at_war\<close> gives a Record of kind \<^verbatim>\<open>effect\<close>.
\<close>

theorem triggers_log_kind:
  "parse_log_file ''triggers''
     ([NL] @ ''## is_at_war'' @ [NL] @ ''**Supported Scopes**: country'' @ [NL]
        @ ''True while at war.'' @ [NL])
   = [[(''name'', JStr ''is_at_war''), (''description'', JStr ''True while at war.''),
       (''supported_scopes'', JList [''country'']), (''supported_targets'', JList []),
       (''type'', JStr ''effect'')]]"
  by code_simp

text \<open>
  C3. Every Record of every parser should have a non-empty name and one of the five kinds.
  The Line-Tag Parser does not test the name it extracts, as the other two parsers do:
  on a line whose tag is blank it produces a Record with the empty name.
\<close>

theorem modifier_empty_name:
  "parse_modifier_log_file (''Tag: , Categories: x'' @ [NL])
   = [[(''name'', JStr ''''), (''description'', JStr ''''), (''categories'', JList [''x'']),
       (''type'', JStr ''modifier'')]]"
  by code_simp

text \<open>
  C4. The heading-block scenario of the spec: the source has one heading, at the very
  start of the text. The parser splits at a line feed followed by the heading marker, so
  the first line is not split off its marker: the one Record has the scopes and the
  description the scenario says, and the name \<^verbatim>\<open>## add_gold\<close> in place of
  \<^verbatim>\<open>add_gold\<close>.
\<close>

theorem heading_block_scenario:
  "parse_markdown_log_file
     (''## add_gold'' @ [NL] @ ''**Supported Scopes**: country, province'' @ [NL]
        @ ''Grants gold.'' @ [NL])
   = [[(''name'', JStr ''## add_gold''), (''description'', JStr ''Grants gold.''),
       (''supported_scopes'', JList [''country'', ''province'']),
       (''supported_targets'', JList []), (''type'', JStr ''effect'')]]"
  by code_simp

section \<open>Scope search and the loaded store\<close>

text \<open>Over Records whose \<^verbatim>\<open>supported_scopes\<close> is a list where present and whose
  \<^verbatim>\<open>type\<close> is a string where present, \<^verbatim>\<open>DataSearcher.search_by_scopes\<close> does not
  raise and returns the Records with a supported scope equal to the query up to case,
  restricted to the given type, compared up to case as well, when one is given.\<close>

lemma search_by_scopes_matches:
  assumes "list_all (\<lambda>e. list_or_absent e ''supported_scopes'' \<and> str_or_absent e ''type'')
             (searcher_all_data s)"
  shows "search_by_scopes s scope entry_type
           = Inr (filter (\<lambda>e. list_ex (\<lambda>x. py_lower x = py_lower scope) (list_of e ''supported_scopes'')
                              \<and> (case entry_type of
                                    None \<Rightarrow> True
                                  | Some t \<Rightarrow> py_lower (str_of e ''type'') = py_lower t))
                    (searcher_all_data s))"
  unfolding search_by_scopes_def
  by (rule filter_e_Inr)
    (use assms in \<open>auto simp: list_all_iff scope_match_def bind_e_def list_or_absent_dict_get
       str_or_absent_dict_get split: option.splits\<close>)

text \<open>
  C2. Scope search should return the Records whose \<^verbatim>\<open>supported_scopes\<close> hold the
  scope, compared without case. \<^verbatim>\<open>DataHandler.get_data_by_scope\<close> reads the key
  \<^verbatim>\<open>scopes\<close>, which no parser writes: for the scope \<^verbatim>\<open>country\<close> it returns nothing
  from a store in which both Records support that scope, where
  \<^verbatim>\<open>DataSearcher.search_by_scopes\<close> returns both.
\<close>

theorem scope_search_reads_scopes_key:
  "get_data_by_scope example_handler ''country'' 20 = Inr []
   \<and> search_by_scopes example_searcher ''Country'' None = Inr [add_gold, add_army]"
  by code_simp

text \<open>
  C5. No search should change the loaded store. The fuzzy path of
  \<^verbatim>\<open>DataSearcher.search_by_name\<close> writes the similarity into the Records of the Name
  Index themselves (\<^verbatim>\<open>DataHandler.search_by_name\<close> writes it into copies): after the
  query \<^verbatim>\<open>add_golds\<close> the Record stored under \<^verbatim>\<open>add_gold\<close> has a new field.
\<close>

theorem fuzzy_search_marks_index:
  "searcher_index (snd (searcher_search_by_name sequence_ratio example_searcher ''add_golds'' True))
     = [(''add_gold'', [add_gold_indexed @ [(''similarity'', JNum (16 / 17))]]),
        (''add_army'', [add_army_indexed])]
   \<and> searcher_index (snd (searcher_search_by_name sequence_ratio example_searcher ''add_golds'' True))
     \<noteq> searcher_index example_searcher"
  by code_simp

section \<open>Limits\<close>

text \<open>
  C6 (amended). For every limited search operation of the DataHandler (name lookup, by
  type, by scope, and the four free-text searches) and every limit that is not negative,
  the returned list has at most \<open>limit\<close> Records, so it is empty for the limit 0. (A
  negative limit drops that many Records from the end of the result instead, as Python's
  slice does.)
\<close>

theorem limit_respected:
  assumes "0 \<le> limit"
  shows "int (length (handler_search_by_name ratio h name fuzzy limit)) \<le> limit
       \<and> int (length (get_data_by_type h data_type limit)) \<le> limit
       \<and> (\<forall>rs. get_data_by_scope h scope limit = Inr rs \<longrightarrow> int (length rs) \<le> limit)
       \<and> (\<forall>rs. search_modifiers h query limit = Inr rs \<longrightarrow> int (length rs) \<le> limit)
       \<and> (\<forall>rs. search_effects h query limit = Inr rs \<longrightarrow> int (length rs) \<le> limit)
       \<and> (\<forall>rs. search_triggers h query limit = Inr rs \<longrightarrow> int (length rs) \<le> limit)
       \<and> (\<forall>rs. search_event_targets h query limit = Inr rs \<longrightarrow> int (length rs) \<le> limit)"
proof -
  note bound = length_slice_to_le [OF assms]
  have name: "int (length (handler_search_by_name ratio h name fuzzy limit)) \<le> limit"
    using assms by (simp add: handler_search_by_name_def Let_def bound split: option.split)
  have type: "int (length (get_data_by_type h data_type limit)) \<le> limit"
    by (simp add: get_data_by_type_def bound)
  have scope: "int (length rs) \<le> limit" if "get_data_by_scope h scope limit = Inr rs" for rs
    using limited_results [OF that [unfolded get_data_by_scope_def]] bound by auto
  have mods: "int (length rs) \<le> limit" if "search_modifiers h query limit = Inr rs" for rs
    using limited_results [OF that [unfolded search_modifiers_def]] bound by auto
  have effs: "int (length rs) \<le> limit" if "search_effects h query limit = Inr rs" for rs
    using limited_results [OF that [unfolded search_effects_def]] bound by auto
  have trigs: "int (length rs) \<le> limit" if "search_triggers h query limit = Inr rs" for rs
    using limited_results [OF that [unfolded search_triggers_def]] bound by auto
  have targets: "int (length rs) \<le> limit" if "search_event_targets h query limit = Inr rs" for rs
    using limited_results [OF that [unfolded search_event_targets_def]] bound by auto
  from name type scope mods effs trigs targets show ?thesis
    by blast
qed

theorem limit_respected_witness:
  "(0::int) \<le> 1
   \<and> handler_search_by_name sequence_ratio example_handler ''add_gory'' True 1
       = [add_gold_indexed @ [(''similarity'', JNum (3 / 4))]]
   \<and> get_data_by_type example_handler ''effect'' 1 = [add_gold]
   \<and> search_effects example_handler ''ADD'' 1 = Inr [add_gold]
   \<and> int (length (handler_search_by_name sequence_ratio example_handler ''add_gory'' True 1)) \<le> 1
   \<and> int (length (get_data_by_type example_handler ''effect'' 1)) \<le> 1
   \<and> int (length [add_gold]) \<le> 1"
proof -
  have h: "(0::int) \<le> 1" by simp
  have a: "handler_search_by_name sequence_ratio example_handler ''add_gory'' True 1
             = [add_gold_indexed @ [(''similarity'', JNum (3 / 4))]]"
    by code_simp
  have b: "get_data_by_type example_handler ''effect'' 1 = [add_gold]"
    by code_simp
  have c: "search_effects example_handler ''ADD'' 1 = Inr [add_gold]"
    by code_simp
  from limit_respected [OF h, of sequence_ratio example_handler "''add_gory''" True "''effect''"
      "''country''" "''ADD''"] c
  have "int (length (handler_search_by_name sequence_ratio example_handler ''add_gory'' True 1)) \<le> 1
      \<and> int (length (get_data_by_type example_handler ''effect'' 1)) \<le> 1
      \<and> int (length [add_gold]) \<le> 1"
    by blast
  with h a b c show ?thesis by blast
qed

theorem negative_limit_keeps_records:
  "get_data_by_type example_handler ''effect'' (- 1) = [add_gold]
   \<and> search_effects example_handler ''ADD'' (- 1) = Inr [add_gold]"
  by code_simp


section \<open>Name lookup\<close>

text \<open>
  C9 (amended). For every query served by the fuzzy path of
  \<^verbatim>\<open>DataHandler.search_by_name\<close> (the lowercased query is no key of the Name Index and
  the fuzzy flag is set), every returned Record is a copy of a Record of the index, under
  a key whose similarity to the lowercased query is greater than 0.6, and carries that
  similarity; the returned list is sorted by similarity, largest first; and whenever the
  limit is not negative, the list has at most \<open>limit\<close> Records.
\<close>

theorem fuzzy_lookup_ranked:
  assumes "map_of (index h) (py_lower name) = None"
  shows "(\<forall>e \<in> set (handler_search_by_name ratio h name True limit).
            \<exists>key entries entry. (key, entries) \<in> set (index h) \<and> entry \<in> set entries
              \<and> e = set_item entry ''similarity'' (JNum (ratio (py_lower name) key))
              \<and> map_of e ''similarity'' = Some (JNum (ratio (py_lower name) key))
              \<and> 6 / 10 < ratio (py_lower name) key)
       \<and> sorted_wrt (\<lambda>x y. similarity_of y \<le> similarity_of x)
            (handler_search_by_name ratio h name True limit)
       \<and> (0 \<le> limit \<longrightarrow> int (length (handler_search_by_name ratio h name True limit)) \<le> limit)"
proof -
  let ?hits = "fuzzy_results ratio (index h) (py_lower name)"
  have res: "handler_search_by_name ratio h name True limit
               = slice_to (sort_by_similarity ?hits) limit"
    using assms by (simp add: handler_search_by_name_def Let_def)
  have "set (slice_to (sort_by_similarity ?hits) limit) \<subseteq> set ?hits"
    using set_slice_to [of "sort_by_similarity ?hits" limit] by (simp add: set_sort_by_similarity)
  then have members: "\<forall>e \<in> set (handler_search_by_name ratio h name True limit).
      \<exists>key entries entry. (key, entries) \<in> set (index h) \<and> entry \<in> set entries
        \<and> e = set_item entry ''similarity'' (JNum (ratio (py_lower name) key))
        \<and> map_of e ''similarity'' = Some (JNum (ratio (py_lower name) key))
        \<and> 6 / 10 < ratio (py_lower name) key"
    unfolding res using fuzzy_results_member [of _ ratio "index h" "py_lower name"]
    by (fastforce simp: map_of_set_item)
  have ranked: "sorted_wrt (\<lambda>x y. similarity_of y \<le> similarity_of x)
      (handler_search_by_name ratio h name True limit)"
    unfolding res by (rule sorted_wrt_slice_to) (rule sorted_by_similarity)
  have "0 \<le> limit \<longrightarrow> int (length (handler_search_by_name ratio h name True limit)) \<le> limit"
    unfolding res using length_slice_to_le [of limit "sort_by_similarity ?hits"] by auto
  with members ranked show ?thesis by blast
qed

theorem fuzzy_lookup_ranked_witness:
  "map_of (index example_handler) (py_lower ''Add_Gory'') = None
   \<and> handler_search_by_name sequence_ratio example_handler ''Add_Gory'' True 20
       = [add_gold_indexed @ [(''similarity'', JNum (3 / 4))],
          add_army_indexed @ [(''similarity'', JNum (3 / 4))]]
   \<and> sorted_wrt (\<lambda>x y. similarity_of y \<le> similarity_of x)
        (handler_search_by_name sequence_ratio example_handler ''Add_Gory'' True 20)
   \<and> int (length (handler_search_by_name sequence_ratio example_handler ''Add_Gory'' True 20)) \<le> 20"
proof -
  have miss: "map_of (index example_handler) (py_lower ''Add_Gory'') = None"
    by code_simp
  have found: "handler_search_by_name sequence_ratio example_handler ''Add_Gory'' True 20
       = [add_gold_indexed @ [(''similarity'', JNum (3 / 4))],
          add_army_indexed @ [(''similarity'', JNum (3 / 4))]]"
    by code_simp
  from fuzzy_lookup_ranked [OF miss, of sequence_ratio 20] miss found show ?thesis
    by simp
qed

theorem fuzzy_lookup_negative_limit:
  "map_of (index example_handler) (py_lower ''add_gory'') = None
   \<and> handler_search_by_name sequence_ratio example_handler ''add_gory'' True (- 1)
       = [add_gold_indexed @ [(''similarity'', JNum (3 / 4))]]
   \<and> \<not> int (length (handler_search_by_name sequence_ratio example_handler ''add_gory'' True (- 1)))
         \<le> - 1"
  by code_simp

text \<open>The exact path of \<^verbatim>\<open>DataSearcher.search_by_name\<close> returns the registered Records
  and leaves the searcher as it is.\<close>

lemma searcher_exact_lookup:
  assumes "map_of (searcher_index s) (py_lower name) = Some entries"
  shows "searcher_search_by_name ratio s name fuzzy = (entries, s)"
  using assms by (simp add: searcher_search_by_name_def Let_def)

text \<open>
  C10 (amended). For every key of the Name Index and every text whose lowercase form is
  that key, the similarity of the lowercased text to the key is 1.0, and the fuzzy step
  gives every Record registered under the key the similarity 1.0; but name lookup with
  that text does not reach the fuzzy step: with either value of the fuzzy flag the exact
  path returns the Records registered under the key as they are stored, cut to the limit,
  and attaches nothing to them (so a returned Record has a similarity only where the
  stored Record has one). \<^verbatim>\<open>DataSearcher.search_by_name\<close> returns all of them and
  leaves the searcher unchanged.
\<close>

theorem exact_lookup_returns_registered:
  assumes "map_of (index h) key = Some entries" and "py_lower name = key"
  shows "sequence_ratio (py_lower name) key = 1
       \<and> (\<forall>entry \<in> set entries.
             set_item entry ''similarity'' (JNum 1)
               \<in> set (fuzzy_results sequence_ratio (index h) (py_lower name)))
       \<and> handler_search_by_name ratio h name fuzzy limit = slice_to entries limit
       \<and> (\<forall>e \<in> set (handler_search_by_name ratio h name fuzzy limit). e \<in> set entries)
       \<and> (\<forall>stored. map_of (searcher_index s) key = Some stored
             \<longrightarrow> searcher_search_by_name ratio s name fuzzy = (stored, s))"
proof -
  have one: "sequence_ratio (py_lower name) key = 1"
    using assms(2) by (simp add: sequence_ratio_same)
  from assms(1) have "(key, entries) \<in> set (index h)"
    by (rule map_of_SomeD)
  then have hits: "set_item entry ''similarity'' (JNum 1)
      \<in> set (fuzzy_results sequence_ratio (index h) (py_lower name))" if "entry \<in> set entries" for entry
    using that one by (force simp: fuzzy_results_def Let_def)
  have exact: "handler_search_by_name ratio h name fuzzy limit = slice_to entries limit"
    using assms by (simp add: handler_search_by_name_def Let_def)
  have stored: "e \<in> set entries" if "e \<in> set (handler_search_by_name ratio h name fuzzy limit)" for e
    using that set_slice_to [of entries limit] unfolding exact by blast
  have searcher: "searcher_search_by_name ratio s name fuzzy = (stored, s)"
    if "map_of (searcher_index s) key = Some stored" for stored
    using that assms(2) by (simp add: searcher_exact_lookup)
  from one hits exact stored searcher show ?thesis
    by blast
qed

theorem exact_lookup_returns_registered_witness:
  "map_of (index example_handler) ''add_gold'' = Some [add_gold_indexed]
   \<and> py_lower ''ADD_Gold'' = ''add_gold''
   \<and> sequence_ratio (py_lower ''ADD_Gold'') ''add_gold'' = 1
   \<and> set_item add_gold_indexed ''similarity'' (JNum 1)
        \<in> set (fuzzy_results sequence_ratio (index example_handler) (py_lower ''ADD_Gold''))
   \<and> handler_search_by_name sequence_ratio example_handler ''ADD_Gold'' True 20
       = slice_to [add_gold_indexed] 20
   \<and> slice_to [add_gold_indexed] 20 = [add_gold_indexed]
   \<and> map_of (searcher_index example_searcher) ''add_gold'' = Some [add_gold_indexed]
   \<and> searcher_search_by_name sequence_ratio example_searcher ''ADD_Gold'' True
       = ([add_gold_indexed], example_searcher)"
proof -
  have key: "map_of (index example_handler) ''add_gold'' = Some [add_gold_indexed]"
    by code_simp
  have low: "py_lower ''ADD_Gold'' = ''add_gold''"
    by code_simp
  have cut: "slice_to [add_gold_indexed] 20 = [add_gold_indexed]"
    by (simp add: slice_to_def)
  have skey: "map_of (searcher_index example_searcher) ''add_gold'' = Some [add_gold_indexed]"
    by code_simp
  from exact_lookup_returns_registered
         [OF key low, of sequence_ratio True 20 example_searcher] key low cut skey
  show ?thesis by simp
qed

theorem exact_lookup_no_similarity:
  "handler_search_by_name sequence_ratio example_handler ''ADD_Gold'' True 20 = [add_gold_indexed]
   \<and> map_of add_gold_indexed ''similarity'' = None
   \<and> map_of add_gold_indexed ''similarity'' \<noteq> Some (JNum 1)
   \<and> fst (searcher_search_by_name sequence_ratio
           (snd (searcher_search_by_name sequence_ratio example_searcher ''add_golds'' True))
           ''ADD_Gold'' True)
       = [add_gold_indexed @ [(''similarity'', JNum (16 / 17))]]"
  by code_simp

section \<open>Regex search\<close>




section \<open>Composite search\<close>

text \<open>
  C7 (amended). Composite search reads the filters name, return\_type, category and
  description, and no other (a kind filter is ignored). Over a store whose Records all
  carry a string name, category and description and, when the return\_type filter is
  given, a string return\_type: for every combination of these four filters, composite
  search does not raise and returns exactly the Records of the Flat Collection, in its
  order, that lie in the result of each given single-filter search (by return type, by
  category, by description) and whose name is among the names of the Records that name
  lookup with the fuzzy flag returns; a value that matches nothing gives the empty list.
\<close>

theorem composite_search_intersection:
  assumes data: "list_all (\<lambda>e. has_str e ''name'' \<and> has_str e ''category'' \<and> has_str e ''description'')
                   (searcher_all_data s)"
    and idx: "list_all (\<lambda>ke. list_all (\<lambda>e. has_str e ''name'') (snd ke)) (searcher_index s)"
    and rt: "map_of kwargs ''return_type'' = None
             \<or> list_all (\<lambda>e. has_str e ''return_type'') (searcher_all_data s)"
  shows "fst (advanced_search ratio s kwargs)
           = Inr (filter (\<lambda>e.
                (case map_of kwargs ''name'' of
                   None \<Rightarrow> True
                 | Some name \<Rightarrow> str_of e ''name''
                     \<in> set (map (\<lambda>r. str_of r ''name'') (fst (searcher_search_by_name ratio s name True))))
              \<and> (case map_of kwargs ''return_type'' of
                   None \<Rightarrow> True
                 | Some t \<Rightarrow> e \<in> set (results_of (search_by_type s t)))
              \<and> (case map_of kwargs ''category'' of
                   None \<Rightarrow> True
                 | Some c \<Rightarrow> e \<in> set (results_of (search_by_category s c)))
              \<and> (case map_of kwargs ''description'' of
                   None \<Rightarrow> True
                 | Some d \<Rightarrow> e \<in> set (results_of (search_by_description s d))))
             (searcher_all_data s))
       \<and> (\<forall>t. map_of kwargs ''return_type'' = Some t \<longrightarrow> (\<exists>rs. search_by_type s t = Inr rs))
       \<and> (\<forall>c. \<exists>rs. search_by_category s c = Inr rs)
       \<and> (\<forall>d. \<exists>rs. search_by_description s d = Inr rs)"
proof -
  let ?all = "searcher_all_data s"
  let ?N = "\<lambda>e. case map_of kwargs ''name'' of
                  None \<Rightarrow> True
                | Some name \<Rightarrow> str_of e ''name''
                    \<in> set (map (\<lambda>r. str_of r ''name'') (fst (searcher_search_by_name ratio s name True)))"
  let ?T = "\<lambda>e. case map_of kwargs ''return_type'' of
                  None \<Rightarrow> True | Some t \<Rightarrow> py_lower (str_of e ''return_type'') = py_lower t"
  let ?C = "\<lambda>e. case map_of kwargs ''category'' of
                  None \<Rightarrow> True | Some c \<Rightarrow> py_lower (str_of e ''category'') = py_lower c"
  let ?D = "\<lambda>e. case map_of kwargs ''description'' of
                  None \<Rightarrow> True
                | Some d \<Rightarrow> str_contains (py_lower (str_of e ''description'')) (py_lower d)"
  from data have names: "list_all (\<lambda>e. has_str e ''name'') ?all"
    and cats: "list_all (\<lambda>e. has_str e ''category'') ?all"
    and descs: "list_all (\<lambda>e. has_str e ''description'') ?all"
    by (simp_all add: list_all_iff)
  have 1: "fst (narrow_by_name ratio s kwargs) = Inr (filter ?N ?all)"
    by (rule narrow_by_name_Inr [OF names idx])
  have 2: "narrow_by_return_type kwargs (Inr (filter ?N ?all))
             = Inr (filter (\<lambda>e. ?N e \<and> ?T e) ?all)"
    by (rule narrow_by_return_type_Inr [OF rt])
  have 3: "narrow_by_category kwargs (Inr (filter (\<lambda>e. ?N e \<and> ?T e) ?all))
             = Inr (filter (\<lambda>e. (?N e \<and> ?T e) \<and> ?C e) ?all)"
    by (rule narrow_by_category_Inr [OF cats])
  have 4: "narrow_by_description kwargs (Inr (filter (\<lambda>e. (?N e \<and> ?T e) \<and> ?C e) ?all))
             = Inr (filter (\<lambda>e. ((?N e \<and> ?T e) \<and> ?C e) \<and> ?D e) ?all)"
    by (rule narrow_by_description_Inr [OF descs])
  have code: "fst (advanced_search ratio s kwargs)
                = Inr (filter (\<lambda>e. ((?N e \<and> ?T e) \<and> ?C e) \<and> ?D e) ?all)"
    by (simp only: advanced_search_def Let_def fst_conv 1 2 3 4)
  have T: "?T e = (case map_of kwargs ''return_type'' of
                     None \<Rightarrow> True | Some t \<Rightarrow> e \<in> set (results_of (search_by_type s t)))"
    if "e \<in> set ?all" for e
    using rt that by (auto simp: search_by_type_Inr results_of_def split: option.splits)
  have C: "?C e = (case map_of kwargs ''category'' of
                     None \<Rightarrow> True | Some c \<Rightarrow> e \<in> set (results_of (search_by_category s c)))"
    if "e \<in> set ?all" for e
    using that by (auto simp: search_by_category_Inr [OF cats] results_of_def split: option.splits)
  have D: "?D e = (case map_of kwargs ''description'' of
                     None \<Rightarrow> True | Some d \<Rightarrow> e \<in> set (results_of (search_by_description s d)))"
    if "e \<in> set ?all" for e
    using that by (auto simp: search_by_description_Inr [OF descs] results_of_def split: option.splits)
  have result: "fst (advanced_search ratio s kwargs)
           = Inr (filter (\<lambda>e.
                (case map_of kwargs ''name'' of
                   None \<Rightarrow> True
                 | Some name \<Rightarrow> str_of e ''name''
                     \<in> set (map (\<lambda>r. str_of r ''name'') (fst (searcher_search_by_name ratio s name True))))
              \<and> (case map_of kwargs ''return_type'' of
                   None \<Rightarrow> True
                 | Some t \<Rightarrow> e \<in> set (results_of (search_by_type s t)))
              \<and> (case map_of kwargs ''category'' of
                   None \<Rightarrow> True
                 | Some c \<Rightarrow> e \<in> set (results_of (search_by_category s c)))
              \<and> (case map_of kwargs ''description'' of
                   None \<Rightarrow> True
                 | Some d \<Rightarrow> e \<in> set (results_of (search_by_description s d))))
             (searcher_all_data s))"
    unfolding code by (simp add: T C D conj_assoc cong: filter_cong)
  have types: "\<exists>rs. search_by_type s t = Inr rs" if "map_of kwargs ''return_type'' = Some t" for t
    using rt that by (simp add: search_by_type_Inr)
  have categories: "\<exists>rs. search_by_category s c = Inr rs" for c
    by (simp add: search_by_category_Inr [OF cats])
  have descriptions: "\<exists>rs. search_by_description s d = Inr rs" for d
    by (simp add: search_by_description_Inr [OF descs])
  from result types categories descriptions show ?thesis
    by blast
qed


theorem composite_search_intersection_witness:
  "list_all (\<lambda>e. has_str e ''name'' \<and> has_str e ''category'' \<and> has_str e ''description'')
     (searcher_all_data example_searcher)
   \<and> list_all (\<lambda>ke. list_all (\<lambda>e. has_str e ''name'') (snd ke)) (searcher_index example_searcher)
   \<and> map_of [(''name'', ''add_golds''), (''category'', ''EFFECTS''), (''description'', ''gold'')]
        ''return_type'' = None
   \<and> fst (advanced_search sequence_ratio example_searcher
            [(''name'', ''add_golds''), (''category'', ''EFFECTS''), (''description'', ''gold'')])
       = Inr [add_gold]
   \<and> fst (advanced_search sequence_ratio example_searcher [(''category'', ''army'')]) = Inr []
   \<and> list_all (\<lambda>e. has_str e ''name'' \<and> has_str e ''category'' \<and> has_str e ''description'')
       (searcher_all_data types_searcher)
   \<and> list_all (\<lambda>ke. list_all (\<lambda>e. has_str e ''name'') (snd ke)) (searcher_index types_searcher)
   \<and> list_all (\<lambda>e. has_str e ''return_type'') (searcher_all_data types_searcher)
   \<and> fst (advanced_search sequence_ratio types_searcher
            [(''return_type'', ''INT''), (''category'', ''common'')])
       = Inr [date_type]
   \<and> search_by_type types_searcher ''INT'' = Inr [date_type]"
proof -
  let ?kw = "[(''name'', ''add_golds''), (''category'', ''EFFECTS''), (''description'', ''gold'')]"
  let ?kw' = "[(''return_type'', ''INT''), (''category'', ''common'')]"
  have data: "list_all (\<lambda>e. has_str e ''name'' \<and> has_str e ''category'' \<and> has_str e ''description'')
     (searcher_all_data example_searcher)"
    by code_simp
  have idx: "list_all (\<lambda>ke. list_all (\<lambda>e. has_str e ''name'') (snd ke)) (searcher_index example_searcher)"
    by code_simp
  have rt: "map_of ?kw ''return_type'' = None"
    by simp
  have rt': "map_of [(''category'', ''army'')] ''return_type'' = None"
    by simp
  have one: "fst (advanced_search sequence_ratio example_searcher ?kw) = Inr [add_gold]"
    by code_simp
  have none: "fst (advanced_search sequence_ratio example_searcher [(''category'', ''army'')]) = Inr []"
    by code_simp
  have tdata: "list_all (\<lambda>e. has_str e ''name'' \<and> has_str e ''category'' \<and> has_str e ''description'')
     (searcher_all_data types_searcher)"
    by code_simp
  have tidx: "list_all (\<lambda>ke. list_all (\<lambda>e. has_str e ''name'') (snd ke)) (searcher_index types_searcher)"
    by code_simp
  have trt: "list_all (\<lambda>e. has_str e ''return_type'') (searcher_all_data types_searcher)"
    by code_simp
  have typed: "fst (advanced_search sequence_ratio types_searcher ?kw') = Inr [date_type]"
    by code_simp
  have single: "search_by_type types_searcher ''INT'' = Inr [date_type]"
    by code_simp
  from composite_search_intersection [OF data idx disjI1 [OF rt], of sequence_ratio]
    composite_search_intersection [OF data idx disjI1 [OF rt'], of sequence_ratio]
    composite_search_intersection [OF tdata tidx disjI2 [OF trt], of sequence_ratio ?kw']
    data idx rt one none tdata tidx trt typed single
  show ?thesis by blast
qed

theorem composite_search_ignores_kind:
  "fst (advanced_search sequence_ratio example_searcher
          [(''kind'', ''modifier''), (''category'', ''effects'')])
     = Inr [add_gold, add_army]
   \<and> get_data_by_type example_handler ''modifier'' 20 = []
   \<and> all_data example_handler = searcher_all_data example_searcher"
  by code_simp

text \<open>The return\_type block of composite search indexes \<^verbatim>\<open>e['return_type']\<close>, where
  the single-filter search uses \<^verbatim>\<open>get\<close> with a default: on Records without that
  field the first raises and the second does not.\<close>

lemma composite_search_return_type_raises:
  "fst (advanced_search sequence_ratio example_searcher [(''return_type'', ''int'')])
     = Inl (KeyError ''return_type'')
   \<and> search_by_type example_searcher ''int'' = Inr []"
  by code_simp

end
